theory Spec2Isabelle
  imports Main
begin

section \<open>Data model (models.js)\<close>

text \<open>
  Student and seat objects are JavaScript objects that the program shares by reference:
  a seat's \<open>student\<close> field points either at the object held in the roster array
  \<open>data.students\<close> or at a detached copy produced by \<open>deepClone\<close>. Student objects
  therefore live in an explicit store \<open>objects\<close>, the list of all student objects made
  so far, and a reference is a position in it. The program makes a reference only when it
  makes the object, so every reference it holds lies inside the store.
  Seat objects are only reachable through the array \<open>data.seats\<close>; a reference to a seat
  object is its index in that array.
\<close>

type_synonym ref = nat

text \<open>Class \<open>Student\<close>. The source field \<open>id\<close> (the student number) is \<open>student_no\<close>
  here, and \<open>notes\<close> is \<open>student_notes\<close>.\<close>

record Student =
  uuid :: string
  name :: string
  student_no :: string
  gender :: string
  height :: "int option"
  student_notes :: string
  seatId :: "string option"

text \<open>
  Class \<open>Seat\<close>. The source field \<open>id\<close> is \<open>seat_id\<close> here. The type parameter is what
  the \<open>student\<close> field holds: a reference in the live grid, a value in a serialised copy.
\<close>

record 'r Seat =
  seat_id :: string
  row :: int
  col :: int
  student :: "'r option"
  position :: int
  isDeleted :: bool

text \<open>A history entry \<open>{action, data: {seats}, timestamp}\<close>; \<open>snapshot\<close> is \<open>data.seats\<close>.\<close>

record HistoryItem =
  action :: string
  snapshot :: "Student Seat list"
  timestamp :: int

text \<open>
  Class \<open>SeatingData\<close>, without the display settings (fonts, colours, constraints,
  coordinate toggle), which no operation below reads.
\<close>

record SeatingData =
  objects :: "Student list"
  students :: "ref list"
  seats :: "ref Seat list"
  rows :: int
  cols :: int
  history :: "HistoryItem list"
  historyIndex :: int

definition MAX_HISTORY_SIZE :: nat where
  "MAX_HISTORY_SIZE = 5"

text \<open>
  Class \<open>SeatingApp\<close>: the data and the selection. \<open>selectedSeats\<close> is a JavaScript
  \<open>Set\<close>, which iterates in insertion order; it is the list of its members in that order.
\<close>

record SeatingApp =
  data :: SeatingData
  selectedSeats :: "string list"

section \<open>Helpers for JavaScript arrays\<close>

text \<open>\<open>Array.prototype.findIndex\<close>, with \<open>None\<close> for \<open>-1\<close>.\<close>

fun findIndex :: "('a \<Rightarrow> bool) \<Rightarrow> 'a list \<Rightarrow> nat option" where
  "findIndex P [] = None"
| "findIndex P (x # xs) =
     (if P x then Some 0 else map_option Suc (findIndex P xs))"

text \<open>\<open>Array.prototype.slice(start, end)\<close>: a negative index counts from the end.\<close>

definition relIndex :: "'a list \<Rightarrow> int \<Rightarrow> nat" where
  "relIndex xs k =
     (if k < 0 then nat (max (int (length xs) + k) 0) else min (nat k) (length xs))"

definition slice :: "'a list \<Rightarrow> int \<Rightarrow> int \<Rightarrow> 'a list" where
  "slice xs start stop =
     take (relIndex xs stop - relIndex xs start) (drop (relIndex xs start) xs)"

text \<open>
  \<open>Array.prototype.sort(compare)\<close>. The sort is stable; for a consistent comparison
  function its result is the stable insertion sort below.
\<close>

fun insertBy :: "('a \<Rightarrow> 'a \<Rightarrow> int) \<Rightarrow> 'a \<Rightarrow> 'a list \<Rightarrow> 'a list" where
  "insertBy cmp x [] = [x]"
| "insertBy cmp x (y # ys) =
     (if cmp x y < 0 then x # y # ys else y # insertBy cmp x ys)"

definition sortBy :: "('a \<Rightarrow> 'a \<Rightarrow> int) \<Rightarrow> 'a list \<Rightarrow> 'a list" where
  "sortBy cmp xs = foldl (\<lambda>acc x. insertBy cmp x acc) [] xs"

text \<open>The comparison \<open>(a.row - b.row) || (a.col - b.col)\<close> on two seats.\<close>

definition rowMajor :: "'r Seat \<Rightarrow> 'r Seat \<Rightarrow> int" where
  "rowMajor a b = (if row a - row b \<noteq> 0 then row a - row b else col a - col b)"

section \<open>Coordinate conversion (utils.js)\<close>

definition toDisplayCoord :: "int \<Rightarrow> int \<Rightarrow> int \<Rightarrow> int \<times> int" where
  "toDisplayCoord internalRow internalCol totalRows =
     (totalRows - internalRow, internalCol + 1)"

definition toInternalCoord :: "int \<Rightarrow> int \<Rightarrow> int \<Rightarrow> int \<times> int" where
  "toInternalCoord displayRow displayCol totalRows =
     (totalRows - displayRow, displayCol - 1)"

section \<open>SeatingData operations (models.js)\<close>

definition findStudentByUuid :: "SeatingData \<Rightarrow> string \<Rightarrow> ref option" where
  "findStudentByUuid d u = List.find (\<lambda>r. uuid (objects d ! r) = u) (students d)"

text \<open>\<open>findSeatById\<close> returns the seat object, that is its index in \<open>seats\<close>.\<close>

definition findSeatById :: "SeatingData \<Rightarrow> string \<Rightarrow> nat option" where
  "findSeatById d sid = findIndex (\<lambda>s. seat_id s = sid) (seats d)"

text \<open>
  \<open>SeatingUtils.deepClone\<close> is \<open>JSON.parse(JSON.stringify(obj))\<close>: on the seat array it
  copies every seat and, by value, the student object its \<open>student\<close> field points at.
\<close>

definition cloneSeat :: "Student list \<Rightarrow> ref Seat \<Rightarrow> Student Seat" where
  "cloneSeat h s =
     \<lparr>seat_id = seat_id s, row = row s, col = col s,
      student = map_option (\<lambda>r. h ! r) (student s),
      position = position s, isDeleted = isDeleted s\<rparr>"

definition deepClone :: "Student list \<Rightarrow> ref Seat list \<Rightarrow> Student Seat list" where
  "deepClone h ss = map (cloneSeat h) ss"

text \<open>
  \<open>addToHistory(action, data)\<close>; every caller passes \<open>{seats: ...}\<close>, and \<open>now\<close> is the
  value \<open>Date.now()\<close> returns. \<open>saveToStorage\<close> writes to \<open>localStorage\<close> and changes
  nothing in the data.
\<close>

definition addToHistory :: "string \<Rightarrow> ref Seat list \<Rightarrow> int \<Rightarrow> SeatingData \<Rightarrow> SeatingData" where
  "addToHistory act dat now d =
     (let h1 = slice (history d) 0 (historyIndex d + 1);
          h2 = h1 @ [\<lparr>action = act, snapshot = deepClone (objects d) dat, timestamp = now\<rparr>]
      in if length h2 > MAX_HISTORY_SIZE
         then (let removeCount = int (length h2) - int MAX_HISTORY_SIZE;
                   h3 = slice h2 removeCount (int (length h2))
               in d\<lparr>history := h3, historyIndex := int (length h3) - 1\<rparr>)
         else d\<lparr>history := h2, historyIndex := historyIndex d + 1\<rparr>)"

text \<open>
  \<open>undo()\<close> returns the entry or \<open>null\<close>. Reading \<open>history[historyIndex]\<close> beyond the
  end of the array gives \<open>undefined\<close>, which is \<open>None\<close> as well.
\<close>

definition undo :: "SeatingData \<Rightarrow> HistoryItem option \<times> SeatingData" where
  "undo d =
     (if historyIndex d \<ge> 0
      then ((if nat (historyIndex d) < length (history d)
             then Some (history d ! nat (historyIndex d)) else None),
            d\<lparr>historyIndex := historyIndex d - 1\<rparr>)
      else (None, d))"

text \<open>A run of \<open>addToHistory\<close> calls, each with its action, data and clock value.\<close>

fun recordAll :: "(string \<times> ref Seat list \<times> int) list \<Rightarrow> SeatingData \<Rightarrow> SeatingData" where
  "recordAll [] d = d"
| "recordAll ((act, dat, now) # cs) d = recordAll cs (addToHistory act dat now d)"

text \<open>A run of \<open>undo\<close> calls, collecting what each returns.\<close>

fun undoTimes :: "nat \<Rightarrow> SeatingData \<Rightarrow> HistoryItem option list \<times> SeatingData" where
  "undoTimes 0 d = ([], d)"
| "undoTimes (Suc n) d =
     (case undo d of (r, d') \<Rightarrow> (case undoTimes n d' of (rs, d'') \<Rightarrow> (r # rs, d'')))"

text \<open>The entry one \<open>addToHistory\<close> call appends, given the store it clones from.\<close>

definition historyEntry :: "Student list \<Rightarrow> string \<times> ref Seat list \<times> int \<Rightarrow> HistoryItem" where
  "historyEntry h c =
     (case c of (act, dat, now) \<Rightarrow>
        \<lparr>action = act, snapshot = deepClone h dat, timestamp = now\<rparr>)"

text \<open>
  The template literal \<open>`${row}-${col}`\<close> on two loop counters: the decimal digits of a
  non-negative integer, a minus sign, the digits of the other.
\<close>

fun digits :: "nat \<Rightarrow> string" where
  "digits n =
     (if n < 10 then [''0123456789'' ! n]
      else digits (n div 10) @ [''0123456789'' ! (n mod 10)])"

declare digits.simps [simp del]

definition seatIdOf :: "nat \<Rightarrow> nat \<Rightarrow> string" where
  "seatIdOf r c = digits r @ ''-'' @ digits c"

text \<open>
  \<open>initializeSeats\<close>. The dictionary \<open>existingSeatData\<close> is filled in array order, so
  a later seat with the same id overwrites an earlier one.
\<close>

definition existingSeatData :: "ref Seat list \<Rightarrow> (string \<rightharpoonup> ref option \<times> bool)" where
  "existingSeatData ss =
     fold (\<lambda>seat m. m(seat_id seat \<mapsto> (student seat, isDeleted seat))) ss Map.empty"

definition newSeat :: "(string \<rightharpoonup> ref option \<times> bool) \<Rightarrow> int \<Rightarrow> nat \<Rightarrow> nat \<Rightarrow> ref Seat" where
  "newSeat existing totalCols r c =
     (let existingData = existing (seatIdOf r c)
      in \<lparr>seat_id = seatIdOf r c, row = int r, col = int c,
          student = (case existingData of Some e \<Rightarrow> fst e | None \<Rightarrow> None),
          position = int r * totalCols + int c + 1,
          isDeleted = (case existingData of Some e \<Rightarrow> snd e | None \<Rightarrow> False)\<rparr>)"

definition initializeSeats :: "SeatingData \<Rightarrow> SeatingData" where
  "initializeSeats d =
     (let existing = existingSeatData (seats d)
      in d\<lparr>seats :=
            concat (map (\<lambda>r. map (\<lambda>c. newSeat existing (cols d) r c) [0..<nat (cols d)])
                        [0..<nat (rows d)])\<rparr>)"

text \<open>
  \<open>relinkStudentReferences\<close>, returning the data and the \<open>console.warn\<close> messages it
  logged, each as the seat id and the student name it names. A seat is touched only when
  its \<open>student\<close> is non-null and that student's \<open>uuid\<close> is a non-empty string.
\<close>

definition relinkSeat :: "SeatingData \<Rightarrow> ref Seat \<Rightarrow> ref Seat \<times> (string \<times> string) list" where
  "relinkSeat d seat =
     (case student seat of
        None \<Rightarrow> (seat, [])
      | Some r \<Rightarrow>
          if uuid (objects d ! r) = [] then (seat, [])
          else (case List.find (\<lambda>s. uuid (objects d ! s) = uuid (objects d ! r)) (students d) of
                  Some studentInArray \<Rightarrow> (seat\<lparr>student := Some studentInArray\<rparr>, [])
                | None \<Rightarrow> (seat, [(seat_id seat, name (objects d ! r))])))"

definition relinkStudentReferences :: "SeatingData \<Rightarrow> SeatingData \<times> (string \<times> string) list" where
  "relinkStudentReferences d =
     (let rs = map (relinkSeat d) (seats d)
      in (d\<lparr>seats := map fst rs\<rparr>, concat (map snd rs)))"

section \<open>Seat operations (main.js)\<close>

text \<open>
  The calls to \<open>saveToStorage\<close>, the rendering methods and \<open>console.log\<close> in the methods
  below change neither the data nor the selection and are left out.
\<close>

definition syncStudentSeatIds :: "SeatingApp \<Rightarrow> SeatingApp" where
  "syncStudentSeatIds app =
     (let d = data app;
          h1 = fold (\<lambda>r h. h[r := (h ! r)\<lparr>seatId := None\<rparr>]) (students d) (objects d);
          h2 = fold (\<lambda>seat h. case student seat of
                                 Some r \<Rightarrow> h[r := (h ! r)\<lparr>seatId := Some (seat_id seat)\<rparr>]
                               | None \<Rightarrow> h) (seats d) h1
      in app\<lparr>data := d\<lparr>objects := h2\<rparr>\<rparr>)"

text \<open>The seat \<open>seats.find(s => s.student && s.student.uuid === studentUuid)\<close>.\<close>

definition seatOfStudent :: "SeatingData \<Rightarrow> string \<Rightarrow> nat option" where
  "seatOfStudent d studentUuid =
     findIndex (\<lambda>s. case student s of Some r \<Rightarrow> uuid (objects d ! r) = studentUuid
                                      | None \<Rightarrow> False) (seats d)"

text \<open>
  \<open>assignStudentToSeat(studentUuid, seatId, sourceSeatId)\<close>; the method never reads
  \<open>sourceSeatId\<close>. Both early returns leave without any effect.
\<close>

definition assignStudentToSeat ::
  "string \<Rightarrow> string \<Rightarrow> string option \<Rightarrow> int \<Rightarrow> SeatingApp \<Rightarrow> SeatingApp" where
  "assignStudentToSeat studentUuid sid sourceSeatId now app =
     (let d = data app in
      case findStudentByUuid d studentUuid of
        None \<Rightarrow> app
      | Some stu \<Rightarrow>
         (case findSeatById d sid of
            None \<Rightarrow> app
          | Some t \<Rightarrow>
             if isDeleted (seats d ! t) then app
             else
              (let currentSeat = seatOfStudent d studentUuid in
               if (case currentSeat of Some c \<Rightarrow> seat_id (seats d ! c) = sid | None \<Rightarrow> False)
               then app
               else
                (let d1 = addToHistory ''seatArrangement'' (seats d) now d;
                     displacedStudent = student (seats d1 ! t);
                     ss1 = (seats d1)[t := (seats d1 ! t)\<lparr>student := Some stu\<rparr>];
                     ss2 = (case currentSeat of
                              Some c \<Rightarrow>
                                (case displacedStudent of
                                   Some x \<Rightarrow> ss1[c := (ss1 ! c)\<lparr>student := Some x\<rparr>]
                                 | None \<Rightarrow> ss1[c := (ss1 ! c)\<lparr>student := None\<rparr>])
                            | None \<Rightarrow> ss1)
                 in syncStudentSeatIds (app\<lparr>data := d1\<lparr>seats := ss2\<rparr>\<rparr>)))))"

text \<open>\<open>deleteSeat\<close>: an occupied seat is refused with an alert and stays as it is.\<close>

definition deleteSeat :: "string \<Rightarrow> int \<Rightarrow> SeatingApp \<Rightarrow> SeatingApp" where
  "deleteSeat sid now app =
     (let d = data app in
      case findSeatById d sid of
        None \<Rightarrow> app
      | Some i \<Rightarrow>
         (case student (seats d ! i) of
            Some r \<Rightarrow> app
          | None \<Rightarrow>
             (let d1 = addToHistory ''seatArrangement'' (seats d) now d
              in app\<lparr>data := d1\<lparr>seats := (seats d1)[i := (seats d1 ! i)\<lparr>isDeleted := True\<rparr>]\<rparr>\<rparr>)))"

section \<open>Selection (main.js)\<close>

definition clearSelection :: "SeatingApp \<Rightarrow> SeatingApp" where
  "clearSelection app = app\<lparr>selectedSeats := []\<rparr>"

definition toggleSeatSelection :: "string \<Rightarrow> bool \<Rightarrow> SeatingApp \<Rightarrow> SeatingApp" where
  "toggleSeatSelection sid clearOthers app =
     (let app1 = (if clearOthers \<and> sid \<notin> set (selectedSeats app)
                  then clearSelection app else app)
      in if sid \<in> set (selectedSeats app1)
         then app1\<lparr>selectedSeats := filter (\<lambda>x. x \<noteq> sid) (selectedSeats app1)\<rparr>
         else app1\<lparr>selectedSeats := selectedSeats app1 @ [sid]\<rparr>)"

section \<open>Block moves (drag-drop.js, main.js)\<close>

text \<open>
  The payload \<open>prepareMultiSeatDrag\<close> stores in \<open>dragData\<close>. \<open>sourceSeats\<close> is \<open>None\<close>
  when the field is missing or not an array, which \<open>executeMultiDropWithAllSeats\<close> tests.
\<close>

record SourceSeat =
  src_seatId :: string
  src_row :: int
  src_col :: int
  src_student :: "ref option"

record DragData =
  dragType :: string
  sourceSeats :: "SourceSeat list option"
  dragStudents :: "(string \<times> ref) list"
  anchorSeatId :: string

definition prepareMultiSeatDrag :: "string \<Rightarrow> SeatingApp \<Rightarrow> DragData" where
  "prepareMultiSeatDrag sid app =
     (let d = data app;
          found = List.map_filter
                    (\<lambda>x. map_option (\<lambda>i. (x, seats d ! i)) (findSeatById d x))
                    (selectedSeats app)
      in \<lparr>dragType = ''multipleSeats'',
          sourceSeats = Some (map (\<lambda>(x, s). \<lparr>src_seatId = x, src_row = row s, src_col = col s,
                                             src_student = student s\<rparr>) found),
          dragStudents = List.map_filter (\<lambda>(x, s). map_option (\<lambda>r. (x, r)) (student s)) found,
          anchorSeatId = sid\<rparr>)"

text \<open>The result \<open>{positions, displacedStudents}\<close> of \<open>checkMultiDropTarget\<close>.\<close>

record Position =
  originalSeatId :: string
  targetSeatId :: string
  pos_student :: "ref option"

record DropResult =
  positions :: "Position list"
  displacedStudents :: "ref list"

text \<open>The seat \<open>seats.find(s => s.row === newRow && s.col === newCol)\<close>.\<close>

definition seatAt :: "SeatingData \<Rightarrow> int \<Rightarrow> int \<Rightarrow> nat option" where
  "seatAt d r c = findIndex (\<lambda>s. row s = r \<and> col s = c) (seats d)"

text \<open>
  The \<open>for ... of selectedSeatIds\<close> loop of \<open>checkMultiDropTarget\<close>: \<open>allIds\<close> is the whole
  array, the fourth argument what is left of it, and \<open>None\<close> is \<open>return null\<close>.
\<close>

fun checkLoop ::
  "SeatingData \<Rightarrow> int \<Rightarrow> int \<Rightarrow> string list \<Rightarrow> string list \<Rightarrow> Position list \<Rightarrow> ref list
     \<Rightarrow> DropResult option" where
  "checkLoop d rowOffset colOffset allIds [] ps ds =
     Some \<lparr>positions = ps, displacedStudents = ds\<rparr>"
| "checkLoop d rowOffset colOffset allIds (x # rest) ps ds =
     (case findSeatById d x of
        None \<Rightarrow> checkLoop d rowOffset colOffset allIds rest ps ds
      | Some src \<Rightarrow>
         (let newRow = row (seats d ! src) + rowOffset;
              newCol = col (seats d ! src) + colOffset
          in if newRow < 0 \<or> newRow \<ge> rows d \<or> newCol < 0 \<or> newCol \<ge> cols d then None
             else
              (case seatAt d newRow newCol of
                 None \<Rightarrow> None
               | Some tgt \<Rightarrow>
                  if isDeleted (seats d ! tgt) then None
                  else checkLoop d rowOffset colOffset allIds rest
                         (ps @ [\<lparr>originalSeatId = x, targetSeatId = seat_id (seats d ! tgt),
                                 pos_student = student (seats d ! src)\<rparr>])
                         (case student (seats d ! tgt) of
                            Some r \<Rightarrow> if seat_id (seats d ! tgt) \<notin> set allIds
                                      then ds @ [r] else ds
                          | None \<Rightarrow> ds))))"

text \<open>
  \<open>checkMultiDropTarget\<close>. The reference point is \<open>selectedSeatIds[0]\<close>; on an empty
  array that is \<open>undefined\<close>, which no seat has as its id.
\<close>

definition checkMultiDropTarget :: "SeatingData \<Rightarrow> string \<Rightarrow> string list \<Rightarrow> DropResult option" where
  "checkMultiDropTarget d tid selectedSeatIds =
     (case findSeatById d tid of
        None \<Rightarrow> None
      | Some targetSeat \<Rightarrow>
         if isDeleted (seats d ! targetSeat) then None
         else
          (case selectedSeatIds of
             [] \<Rightarrow> None
           | firstSelectedId # _ \<Rightarrow>
              (case findSeatById d firstSelectedId of
                 None \<Rightarrow> None
               | Some firstSelectedSeat \<Rightarrow>
                  checkLoop d
                    (row (seats d ! targetSeat) - row (seats d ! firstSelectedSeat))
                    (col (seats d ! targetSeat) - col (seats d ! firstSelectedSeat))
                    selectedSeatIds selectedSeatIds [] [])))"

text \<open>
  Step 1 of \<open>executeMultiDropWithAllSeats\<close>: the source seats that are no target of the
  move, as seat objects, without the deleted ones, sorted by row and column.
\<close>

definition availableSourceSeats :: "SeatingData \<Rightarrow> DropResult \<Rightarrow> SourceSeat list \<Rightarrow> nat list" where
  "availableSourceSeats d dropResult srcs =
     sortBy (\<lambda>a b. rowMajor (seats d ! a) (seats d ! b))
       (filter (\<lambda>i. \<not> isDeleted (seats d ! i))
          (List.map_filter (\<lambda>s. findSeatById d (src_seatId s))
             (filter (\<lambda>s. src_seatId s \<notin> set (map targetSeatId (positions dropResult))) srcs)))"

text \<open>
  Step 2, the \<open>forEach\<close> over the positions: it empties each occupied source seat, noting
  the student and where it goes in \<open>studentsToMove\<close>, and notes in \<open>displaced\<close> the student
  of each target seat whose id is not one of the source ids, with that seat.
\<close>

fun collectMoves ::
  "string list \<Rightarrow> Position list \<Rightarrow> SeatingData \<Rightarrow> (ref \<times> string) list \<Rightarrow> (ref \<times> nat) list
     \<Rightarrow> SeatingData \<times> (ref \<times> string) list \<times> (ref \<times> nat) list" where
  "collectMoves seatIds [] d studentsToMove displaced = (d, studentsToMove, displaced)"
| "collectMoves seatIds (pos # rest) d studentsToMove displaced =
     (let sourceSeat = findSeatById d (originalSeatId pos);
          targetSeat = findSeatById d (targetSeatId pos);
          moved = (case sourceSeat of
                     Some i \<Rightarrow> (case student (seats d ! i) of
                                  Some r \<Rightarrow> Some (i, r) | None \<Rightarrow> None)
                   | None \<Rightarrow> None);
          d1 = (case moved of
                  Some (i, r) \<Rightarrow> d\<lparr>seats := (seats d)[i := (seats d ! i)\<lparr>student := None\<rparr>]\<rparr>
                | None \<Rightarrow> d);
          studentsToMove1 = (case moved of
                               Some (i, r) \<Rightarrow> studentsToMove @ [(r, targetSeatId pos)]
                             | None \<Rightarrow> studentsToMove);
          displaced1 = (case targetSeat of
                          Some j \<Rightarrow>
                            (case student (seats d1 ! j) of
                               Some r \<Rightarrow> if targetSeatId pos \<notin> set seatIds
                                         then displaced @ [(r, j)] else displaced
                             | None \<Rightarrow> displaced)
                        | None \<Rightarrow> displaced)
      in collectMoves seatIds rest d1 studentsToMove1 displaced1)"

text \<open>Step 4: every moved student is written into its target seat.\<close>

definition placeMoved :: "(ref \<times> string) list \<Rightarrow> SeatingData \<Rightarrow> SeatingData" where
  "placeMoved studentsToMove d =
     fold (\<lambda>(r, tid) d'. case findSeatById d' tid of
                            Some j \<Rightarrow> d'\<lparr>seats := (seats d')[j := (seats d' ! j)\<lparr>student := Some r\<rparr>]\<rparr>
                          | None \<Rightarrow> d')
          studentsToMove d"

text \<open>
  Step 5: the displaced student number \<open>index\<close> goes into the available source seat number
  \<open>index\<close>; when there is none left, its \<open>seatId\<close> is set to \<open>null\<close>.
\<close>

definition placeDisplaced :: "nat list \<Rightarrow> (ref \<times> nat) list \<Rightarrow> SeatingData \<Rightarrow> SeatingData" where
  "placeDisplaced available displaced d =
     fold (\<lambda>((r, cur), index) d'.
             if index < length available
             then d'\<lparr>seats := (seats d')[available ! index :=
                                 (seats d' ! (available ! index))\<lparr>student := Some r\<rparr>]\<rparr>
             else d'\<lparr>objects := (objects d')[r := (objects d' ! r)\<lparr>seatId := None\<rparr>]\<rparr>)
          (zip displaced [0..<length displaced]) d"

definition executeMultiDropWithAllSeats :: "string \<Rightarrow> DragData \<Rightarrow> int \<Rightarrow> SeatingApp \<Rightarrow> SeatingApp" where
  "executeMultiDropWithAllSeats tid dragData now app =
     (case sourceSeats dragData of
        None \<Rightarrow> app
      | Some srcs \<Rightarrow>
         (let seatIds = map src_seatId srcs in
          case checkMultiDropTarget (data app) tid seatIds of
            None \<Rightarrow> app
          | Some dropResult \<Rightarrow>
             (let d1 = addToHistory ''seatArrangement'' (seats (data app)) now (data app);
                  available = availableSourceSeats d1 dropResult srcs
              in case collectMoves seatIds (positions dropResult) d1 [] [] of
                   (d2, studentsToMove, displaced) \<Rightarrow>
                     (let sorted = sortBy (\<lambda>a b. rowMajor (seats d2 ! snd a) (seats d2 ! snd b))
                                          displaced;
                          d3 = placeMoved studentsToMove d2;
                          d4 = placeDisplaced available sorted d3
                      in syncStudentSeatIds (clearSelection (app\<lparr>data := d4\<rparr>))))))"

section \<open>Example classrooms\<close>

text \<open>
  Three students A, W and X, held at the references 0, 1 and 2 and making up the roster.
  \<open>mkStudent\<close> gives the uuid, the name and the cached seat id; \<open>mkSeat\<close> gives the id,
  the coordinates, the occupant, the linear position and the deleted flag.
\<close>

definition mkStudent :: "string \<Rightarrow> string \<Rightarrow> string option \<Rightarrow> Student" where
  "mkStudent u n s =
     \<lparr>uuid = u, name = n, student_no = [], gender = [], height = None,
      student_notes = [], seatId = s\<rparr>"

definition mkSeat :: "string \<Rightarrow> int \<Rightarrow> int \<Rightarrow> ref option \<Rightarrow> int \<Rightarrow> bool \<Rightarrow> ref Seat" where
  "mkSeat i r c occ p del =
     \<lparr>seat_id = i, row = r, col = c, student = occ, position = p, isDeleted = del\<rparr>"

definition roster3 :: "string option \<Rightarrow> string option \<Rightarrow> string option \<Rightarrow> Student list" where
  "roster3 sa sw sx =
     [mkStudent ''u-a'' ''A'' sa, mkStudent ''u-w'' ''W'' sw, mkStudent ''u-x'' ''X'' sx]"

text \<open>
  The application after \<open>init()\<close> when the storage holds the roster and the dimensions
  but no seats and no history: \<open>initializeSeats\<close> builds the grid, and since the history
  is empty \<open>init\<close> records the grid once and then sets the pointer back to \<open>-1\<close>.
\<close>

definition emptyApp :: "int \<Rightarrow> int \<Rightarrow> SeatingApp" where
  "emptyApp r c =
     (let d0 = initializeSeats
                 \<lparr>objects = roster3 None None None, students = [0, 1, 2], seats = [],
                  rows = r, cols = c, history = [], historyIndex = - 1\<rparr>;
          d1 = addToHistory ''seatArrangement'' (seats d0) 0 d0
      in \<lparr>data = d1\<lparr>historyIndex := - 1\<rparr>, selectedSeats = []\<rparr>)"

text \<open>
  Two rows of two seats, A on \<open>0-0\<close> and X on \<open>1-1\<close>; \<open>0-0\<close> and the empty seat \<open>0-1\<close> are
  selected, in that order. \<open>scriptAX\<close> is a run of the program that leads there.
\<close>

definition appAX :: SeatingApp where
  "appAX =
     \<lparr>data = \<lparr>objects = roster3 (Some ''0-0'') None (Some ''1-1''), students = [0, 1, 2],
               seats = [mkSeat ''0-0'' 0 0 (Some 0) 1 False, mkSeat ''0-1'' 0 1 None 2 False,
                        mkSeat ''1-0'' 1 0 None 3 False, mkSeat ''1-1'' 1 1 (Some 2) 4 False],
               rows = 2, cols = 2, history = [], historyIndex = - 1\<rparr>,
      selectedSeats = [''0-0'', ''0-1'']\<rparr>"

definition scriptAX :: SeatingApp where
  "scriptAX =
     toggleSeatSelection ''0-1'' False (toggleSeatSelection ''0-0'' False
       (assignStudentToSeat ''u-x'' ''1-1'' None 2
         (assignStudentToSeat ''u-a'' ''0-0'' None 1 (emptyApp 2 2))))"

text \<open>
  The classroom above after the selected block was dragged from \<open>0-0\<close> onto \<open>1-0\<close>: A is
  on \<open>1-0\<close>, and X is on \<open>0-0\<close> as well as on \<open>1-1\<close>; nothing is selected.
\<close>

definition appDup :: SeatingApp where
  "appDup =
     \<lparr>data = \<lparr>objects = roster3 (Some ''1-0'') None (Some ''1-1''), students = [0, 1, 2],
               seats = [mkSeat ''0-0'' 0 0 (Some 2) 1 False, mkSeat ''0-1'' 0 1 None 2 False,
                        mkSeat ''1-0'' 1 0 (Some 0) 3 False, mkSeat ''1-1'' 1 1 (Some 2) 4 False],
               rows = 2, cols = 2, history = [], historyIndex = - 1\<rparr>,
      selectedSeats = []\<rparr>"

definition scriptDup :: SeatingApp where
  "scriptDup =
     executeMultiDropWithAllSeats ''1-0'' (prepareMultiSeatDrag ''0-0'' scriptAX) 3 scriptAX"

text \<open>
  Two rows of two seats, A on \<open>0-0\<close>, W on \<open>1-0\<close> and X on \<open>1-1\<close>; \<open>0-0\<close> and the seat
  \<open>0-1\<close> are selected, in that order, and \<open>0-1\<close>, which is empty, has been deleted since.
\<close>

definition appAWX :: SeatingApp where
  "appAWX =
     \<lparr>data = \<lparr>objects = roster3 (Some ''0-0'') (Some ''1-0'') (Some ''1-1''),
               students = [0, 1, 2],
               seats = [mkSeat ''0-0'' 0 0 (Some 0) 1 False, mkSeat ''0-1'' 0 1 None 2 True,
                        mkSeat ''1-0'' 1 0 (Some 1) 3 False, mkSeat ''1-1'' 1 1 (Some 2) 4 False],
               rows = 2, cols = 2, history = [], historyIndex = - 1\<rparr>,
      selectedSeats = [''0-0'', ''0-1'']\<rparr>"

definition scriptAWX :: SeatingApp where
  "scriptAWX =
     deleteSeat ''0-1'' 6
       (toggleSeatSelection ''0-1'' False (toggleSeatSelection ''0-0'' False
         (assignStudentToSeat ''u-x'' ''1-1'' None 3
           (assignStudentToSeat ''u-w'' ''1-0'' None 2
             (assignStudentToSeat ''u-a'' ''0-0'' None 1 (emptyApp 2 2))))))"

text \<open>
  Two rows of three seats, A on \<open>0-0\<close> and W on \<open>0-1\<close>, both selected, \<open>0-0\<close> first.
\<close>

definition appAW :: SeatingApp where
  "appAW =
     \<lparr>data = \<lparr>objects = roster3 (Some ''0-0'') (Some ''0-1'') None, students = [0, 1, 2],
               seats = [mkSeat ''0-0'' 0 0 (Some 0) 1 False, mkSeat ''0-1'' 0 1 (Some 1) 2 False,
                        mkSeat ''0-2'' 0 2 None 3 False, mkSeat ''1-0'' 1 0 None 4 False,
                        mkSeat ''1-1'' 1 1 None 5 False, mkSeat ''1-2'' 1 2 None 6 False],
               rows = 2, cols = 3, history = [], historyIndex = - 1\<rparr>,
      selectedSeats = [''0-0'', ''0-1'']\<rparr>"

definition scriptAW :: SeatingApp where
  "scriptAW =
     toggleSeatSelection ''0-1'' False (toggleSeatSelection ''0-0'' False
       (assignStudentToSeat ''u-w'' ''0-1'' None 2
         (assignStudentToSeat ''u-a'' ''0-0'' None 1 (emptyApp 2 3))))"

text \<open>
  A seat array as \<open>deepClone\<close> leaves it: the seat \<open>0-0\<close> points at a copy of A held at the
  reference 3, the seat \<open>0-1\<close> at a copy, held at 4, of a student with the uuid
  \<open>u-gone\<close>, which no student of the roster has.
\<close>

definition restoredData :: SeatingData where
  "restoredData =
     \<lparr>objects = roster3 None None None @
                  [mkStudent ''u-a'' ''A'' (Some ''0-0''),
                   mkStudent ''u-gone'' ''G'' (Some ''0-1'')],
      students = [0, 1, 2],
      seats = [mkSeat ''0-0'' 0 0 (Some 3) 1 False, mkSeat ''0-1'' 0 1 (Some 4) 2 False],
      rows = 1, cols = 2, history = [], historyIndex = - 1\<rparr>"

text \<open>
  The two rows of three seats above after the column count was set to one, before
  \<open>initializeSeats\<close> runs, as \<open>applyNewLayoutFromDropdown\<close> leaves them.
\<close>

definition narrowedData :: SeatingData where
  "narrowedData = (data appAW)\<lparr>cols := 1\<rparr>"

text \<open>Seven \<open>addToHistory\<close> calls, told apart by action and clock value.\<close>

definition sevenCalls :: "(string \<times> ref Seat list \<times> int) list" where
  "sevenCalls =
     [(''a'', [], 1), (''b'', [], 2), (''c'', [], 3), (''d'', [], 4),
      (''e'', [], 5), (''f'', [], 6), (''g'', [], 7)]"

section \<open>Coordinate round trip\<close>

text \<open>
  C7. For every valid internal coordinate \<open>(row, col)\<close> of a grid with \<open>rows\<close> rows and
  \<open>cols\<close> columns, converting to display coordinates and back gives \<open>(row, col)\<close> again.
\<close>

theorem coord_round_trip:
  assumes "0 \<le> r" "r < totalRows" "0 \<le> c" "c < totalCols"
  shows "(case toDisplayCoord r c totalRows of
            (dr, dc) \<Rightarrow> toInternalCoord dr dc totalRows) = (r, c)"
  by (simp add: toDisplayCoord_def toInternalCoord_def)

theorem coord_round_trip_witness:
  "(0::int) \<le> 2 \<and> (2::int) < 6 \<and> (0::int) \<le> 7 \<and> (7::int) < 8 \<and>
   (case toDisplayCoord 2 7 6 of (dr, dc) \<Rightarrow> toInternalCoord dr dc 6) = (2, 7)"
  using coord_round_trip [of 2 6 7 8] by simp

section \<open>Bounded history\<close>

lemma slice_take: "0 \<le> k \<Longrightarrow> slice xs 0 k = take (nat k) xs"
  by (simp add: slice_def relIndex_def min_def)

lemma slice_drop: "0 \<le> k \<Longrightarrow> slice xs k (int (length xs)) = drop (nat k) xs"
  by (simp add: slice_def relIndex_def min_def)

lemma slice_last:
  "n \<le> length xs \<Longrightarrow>
     slice xs (int (length xs) - int n) (int (length xs)) = drop (length xs - n) xs"
  using slice_drop [of "int (length xs) - int n" xs] by (simp add: nat_diff_distrib)

lemma addToHistory_objects: "objects (addToHistory act dat now d) = objects d"
  by (simp add: addToHistory_def Let_def)


text \<open>
  With the pointer at \<open>-1\<close> or above, \<open>addToHistory\<close> cuts the stack after the pointer,
  appends the entry and keeps the last five entries of the result.
\<close>

lemma addToHistory_unfold:
  assumes "- 1 \<le> historyIndex d"
  shows "addToHistory act dat now d =
     (let h2 = take (nat (historyIndex d + 1)) (history d) @
               [historyEntry (objects d) (act, dat, now)]
      in if length h2 > 5
         then d\<lparr>history := slice h2 (int (length h2) - int 5) (int (length h2)),
                historyIndex :=
                  int (length (slice h2 (int (length h2) - int 5) (int (length h2)))) - 1\<rparr>
         else d\<lparr>history := h2, historyIndex := historyIndex d + 1\<rparr>)"
proof -
  have s1: "slice (history d) 0 (historyIndex d + 1) = take (nat (historyIndex d + 1)) (history d)"
    using assms(1) by (simp add: slice_take)
  show ?thesis
    unfolding addToHistory_def Let_def s1 MAX_HISTORY_SIZE_def historyEntry_def by simp
qed

lemma addToHistory_history:
  assumes "- 1 \<le> historyIndex d"
  shows "history (addToHistory act dat now d) =
           (let h2 = take (nat (historyIndex d + 1)) (history d) @
                     [historyEntry (objects d) (act, dat, now)]
            in drop (length h2 - 5) h2)"
proof -
  define h2 where "h2 = take (nat (historyIndex d + 1)) (history d) @
                          [historyEntry (objects d) (act, dat, now)]"
  show ?thesis
  proof (cases "length h2 > 5")
    case True
    then show ?thesis unfolding addToHistory_unfold [OF assms] Let_def h2_def [symmetric]
      using slice_last [of 5 h2] by simp
  next
    case False
    then show ?thesis unfolding addToHistory_unfold [OF assms] Let_def h2_def [symmetric]
      by simp
  qed
qed

lemma addToHistory_index:
  assumes "- 1 \<le> historyIndex d" "historyIndex d < int (length (history d))"
  shows "historyIndex (addToHistory act dat now d) =
           int (length (history (addToHistory act dat now d))) - 1"
proof -
  define h2 where "h2 = take (nat (historyIndex d + 1)) (history d) @
                          [historyEntry (objects d) (act, dat, now)]"
  have len: "int (length h2) = historyIndex d + 2"
    using assms by (auto simp add: h2_def min_def)
  have "length (slice h2 (int (length h2) - int 5) (int (length h2))) = 5" if "length h2 > 5"
    using that slice_last [of 5 h2] by simp
  then show ?thesis
    unfolding addToHistory_unfold [OF assms(1)] Let_def h2_def [symmetric] using len by simp
qed

lemma keep_last_append:
  "drop (length (drop (length xs - n) xs @ ys) - n) (drop (length xs - n) xs @ ys) =
   drop (length (xs @ ys) - n) (xs @ ys)"
  by (cases "length xs \<le> n") (auto simp: add.commute)

text \<open>
  Once the pointer is on the topmost slot, a run of calls appends its entries and keeps
  the last five; the pointer stays on the topmost slot.
\<close>

lemma recordAll_top:
  assumes "historyIndex d = int (length (history d)) - 1"
  shows "history (recordAll cs d) =
           (if cs = [] then history d
            else (let h2 = history d @ map (historyEntry (objects d)) cs
                  in drop (length h2 - 5) h2)) \<and>
         historyIndex (recordAll cs d) = int (length (history (recordAll cs d))) - 1 \<and>
         objects (recordAll cs d) = objects d"
  using assms
proof (induction cs arbitrary: d)
  case Nil
  then show ?case by simp
next
  case (Cons c cs)
  obtain act dat now where c: "c = (act, dat, now)" by (cases c) auto
  let ?d1 = "addToHistory act dat now d"
  have idx: "- 1 \<le> historyIndex d" "historyIndex d < int (length (history d))"
    using Cons.prems by simp_all
  have h1: "history ?d1 =
              (let h2 = history d @ [historyEntry (objects d) c] in drop (length h2 - 5) h2)"
    using addToHistory_history [OF idx(1)] Cons.prems by (simp add: c)
  have i1: "historyIndex ?d1 = int (length (history ?d1)) - 1"
    by (rule addToHistory_index [OF idx])
  note IH = Cons.IH [OF i1]
  show ?case
  proof (cases "cs = []")
    case True
    then show ?thesis using h1 i1 by (simp add: c addToHistory_objects)
  next
    case False
    have "history (recordAll (c # cs) d) = history (recordAll cs ?d1)" by (simp add: c)
    also have "\<dots> = (let h2 = history ?d1 @ map (historyEntry (objects d)) cs
                      in drop (length h2 - 5) h2)"
      using IH False by (simp add: addToHistory_objects)
    also have "\<dots> = (let h2 = history d @ map (historyEntry (objects d)) (c # cs)
                      in drop (length h2 - 5) h2)"
      unfolding h1 Let_def
      using keep_last_append [of "history d @ [historyEntry (objects d) c]" 5
                                 "map (historyEntry (objects d)) cs"]
      by simp
    finally show ?thesis using IH by (simp add: c addToHistory_objects)
  qed
qed

text \<open>
  With the pointer on slot \<open>k - 1\<close>, \<open>k\<close> calls of \<open>undo\<close> return the first \<open>k\<close> entries
  from the top down, and the next call returns nothing.
\<close>

lemma undoTimes_all:
  assumes "historyIndex d = int k - 1" "k \<le> length (history d)"
  shows "fst (undoTimes (Suc k) d) = map Some (rev (take k (history d))) @ [None]"
  using assms
proof (induction k arbitrary: d)
  case 0
  then show ?case by (simp add: undo_def)
next
  case (Suc k)
  let ?d' = "d\<lparr>historyIndex := historyIndex d - 1\<rparr>"
  have u: "undo d = (Some (history d ! k), ?d')"
    using Suc.prems by (simp add: undo_def)
  have "fst (undoTimes (Suc k) ?d') = map Some (rev (take k (history ?d'))) @ [None]"
    by (rule Suc.IH) (use Suc.prems in simp_all)
  then show ?case using u Suc.prems
    by (simp add: take_Suc_conv_app_nth split: prod.splits)
qed

text \<open>
  C4. Start with the pointer between \<open>-1\<close> and the topmost slot (as it is after start
  and after every operation) and call \<open>addToHistory\<close> more than five times. Then the stack
  holds exactly the entries of the last five calls, oldest first, the pointer is on the
  topmost slot 4, and six calls of \<open>undo\<close> return those five entries, newest first, and
  then nothing.
\<close>

theorem bounded_history:
  assumes "- 1 \<le> historyIndex d" "historyIndex d < int (length (history d))" "length cs > 5"
  shows "history (recordAll cs d) = map (historyEntry (objects d)) (drop (length cs - 5) cs) \<and>
         historyIndex (recordAll cs d) = 4 \<and>
         fst (undoTimes 6 (recordAll cs d)) =
           map Some (rev (map (historyEntry (objects d)) (drop (length cs - 5) cs))) @ [None]"
proof -
  obtain c cs' where cs: "cs = c # cs'" using assms(3) by (cases cs) auto
  obtain act dat now where c: "c = (act, dat, now)" by (cases c) auto
  let ?d1 = "addToHistory act dat now d"
  let ?es = "map (historyEntry (objects d)) cs'"
  have len: "5 \<le> length cs'" using assms(3) cs by simp
  have top: "historyIndex ?d1 = int (length (history ?d1)) - 1"
    by (rule addToHistory_index [OF assms(1,2)])
  have ne: "cs' \<noteq> []" using len by auto
  have r: "recordAll cs d = recordAll cs' ?d1" by (simp add: cs c)
  from recordAll_top [OF top, of cs'] ne
  have h: "history (recordAll cs d) = drop (length (history ?d1 @ ?es) - 5) (history ?d1 @ ?es)"
    and i: "historyIndex (recordAll cs d) = int (length (history (recordAll cs d))) - 1"
    by (simp_all add: r Let_def addToHistory_objects)
  have "drop (length (history ?d1 @ ?es) - 5) (history ?d1 @ ?es) = drop (length ?es - 5) ?es"
    using len by simp
  also have "\<dots> = map (historyEntry (objects d)) (drop (length cs - 5) cs)"
  proof -
    have "length cs - 5 = Suc (length cs' - 5)" using len by (simp add: cs)
    then show ?thesis by (simp add: cs drop_map)
  qed
  finally have h': "history (recordAll cs d) =
                      map (historyEntry (objects d)) (drop (length cs - 5) cs)"
    using h by simp
  have l5: "length (history (recordAll cs d)) = 5"
    using h' assms(3) by simp
  have i': "historyIndex (recordAll cs d) = 4" using i l5 by simp
  have "fst (undoTimes (Suc 5) (recordAll cs d)) =
          map Some (rev (take 5 (history (recordAll cs d)))) @ [None]"
    by (rule undoTimes_all) (use i' l5 in simp_all)
  then have "fst (undoTimes 6 (recordAll cs d)) =
               map Some (rev (history (recordAll cs d))) @ [None]"
    using l5 by (simp add: eval_nat_numeral)
  then show ?thesis using h' i' by simp
qed

theorem bounded_history_witness:
  "map (map_option timestamp) (fst (undoTimes 6 (recordAll sevenCalls (data appAX)))) =
     [Some 7, Some 6, Some 5, Some 4, Some 3, None] \<and>
   map timestamp (history (recordAll sevenCalls (data appAX))) = [3, 4, 5, 6, 7] \<and>
   historyIndex (recordAll sevenCalls (data appAX)) = 4"
proof -
  have a: "- 1 \<le> historyIndex (data appAX)"
    and b: "historyIndex (data appAX) < int (length (history (data appAX)))"
    and c: "length sevenCalls > 5"
    by (simp_all add: appAX_def sevenCalls_def)
  show ?thesis
    using bounded_history [OF a b c]
    by (simp add: sevenCalls_def historyEntry_def)
qed

section \<open>Selection\<close>

text \<open>
  C9, as the claim states it, fails: with \<open>0-0\<close> and \<open>0-1\<close> selected, the exclusive toggle
  of \<open>0-0\<close> leaves \<open>0-1\<close> selected, which is neither the set holding \<open>0-0\<close> alone nor the
  empty set.
\<close>

theorem toggle_exclusive_counterexample:
  "selectedSeats appAX = [''0-0'', ''0-1''] \<and>
   selectedSeats (toggleSeatSelection ''0-0'' True appAX) = [''0-1''] \<and>
   set (selectedSeats (toggleSeatSelection ''0-0'' True appAX)) \<noteq> {''0-0''} \<and>
   set (selectedSeats (toggleSeatSelection ''0-0'' True appAX)) \<noteq> {}"
proof -
  have a: "selectedSeats appAX = [''0-0'', ''0-1'']" by code_simp
  have b: "selectedSeats (toggleSeatSelection ''0-0'' True appAX) = [''0-1'']" by code_simp
  show ?thesis unfolding b using a by simp
qed

text \<open>
  C9, amended. The exclusive toggle clears the selection only when the given seat is not
  selected, and then selects it alone; when the given seat is selected it removes that
  seat and keeps every other member.
\<close>

theorem toggle_exclusive:
  "(sid \<in> set (selectedSeats app) \<longrightarrow>
      selectedSeats (toggleSeatSelection sid True app) =
        filter (\<lambda>x. x \<noteq> sid) (selectedSeats app)) \<and>
   (sid \<notin> set (selectedSeats app) \<longrightarrow>
      selectedSeats (toggleSeatSelection sid True app) = [sid])"
  by (simp add: toggleSeatSelection_def clearSelection_def)

theorem toggle_exclusive_witness:
  "''0-1'' \<in> set (selectedSeats appAW) \<and>
   selectedSeats (toggleSeatSelection ''0-1'' True appAW) = [''0-0''] \<and>
   ''1-1'' \<notin> set (selectedSeats appAW) \<and>
   selectedSeats (toggleSeatSelection ''1-1'' True appAW) = [''1-1'']"
proof -
  have a: "selectedSeats appAW = [''0-0'', ''0-1'']" by code_simp
  show ?thesis
    using toggle_exclusive [of "''0-1''" appAW] toggle_exclusive [of "''1-1''" appAW]
    by (simp add: a)
qed

section \<open>Relinking\<close>

lemma relink_nth:
  assumes "i < length (seats d)"
  shows "seats (fst (relinkStudentReferences d)) ! i = fst (relinkSeat d (seats d ! i))"
  using assms by (simp add: relinkStudentReferences_def Let_def)

lemma relink_warnings:
  assumes "i < length (seats d)" "w \<in> set (snd (relinkSeat d (seats d ! i)))"
  shows "w \<in> set (snd (relinkStudentReferences d))"
proof -
  have "seats d ! i \<in> set (seats d)" using assms(1) by simp
  then show ?thesis using assms(2)
    by (auto simp add: relinkStudentReferences_def Let_def)
qed

lemma find_SomeD: "List.find P xs = Some x \<Longrightarrow> x \<in> set xs \<and> P x"
  by (induction xs) (auto split: if_splits)

text \<open>
  C8, amended. For a seat whose occupant has a non-empty uuid, \<open>relinkStudentReferences\<close>
  makes the occupant the first roster student with that uuid when there is one; when
  there is none the seat keeps the occupant it has, and a warning naming the seat and the
  student is logged.
\<close>

theorem relink_semantics:
  assumes "i < length (seats d)" "student (seats d ! i) = Some r" "uuid (objects d ! r) \<noteq> []"
  shows "(\<forall>c. findStudentByUuid d (uuid (objects d ! r)) = Some c \<longrightarrow>
            student (seats (fst (relinkStudentReferences d)) ! i) = Some c \<and>
            c \<in> set (students d) \<and> uuid (objects d ! c) = uuid (objects d ! r)) \<and>
         (findStudentByUuid d (uuid (objects d ! r)) = None \<longrightarrow>
            student (seats (fst (relinkStudentReferences d)) ! i) = Some r \<and>
            (seat_id (seats d ! i), name (objects d ! r)) \<in> set (snd (relinkStudentReferences d)))"
proof (intro conjI allI impI)
  fix c assume c: "findStudentByUuid d (uuid (objects d ! r)) = Some c"
  then have f: "List.find (\<lambda>s. uuid (objects d ! s) = uuid (objects d ! r)) (students d) = Some c"
    by (simp add: findStudentByUuid_def)
  show "student (seats (fst (relinkStudentReferences d)) ! i) = Some c"
    using assms f by (simp add: relink_nth relinkSeat_def)
  show "c \<in> set (students d)" using find_SomeD [OF f] by simp
  show "uuid (objects d ! c) = uuid (objects d ! r)" using find_SomeD [OF f] by simp
next
  assume n: "findStudentByUuid d (uuid (objects d ! r)) = None"
  then have f: "List.find (\<lambda>s. uuid (objects d ! s) = uuid (objects d ! r)) (students d) = None"
    by (simp add: findStudentByUuid_def)
  show "student (seats (fst (relinkStudentReferences d)) ! i) = Some r"
    using assms f by (simp add: relink_nth relinkSeat_def)
  have "(seat_id (seats d ! i), name (objects d ! r)) \<in> set (snd (relinkSeat d (seats d ! i)))"
    using assms f by (simp add: relinkSeat_def)
  then show "(seat_id (seats d ! i), name (objects d ! r)) \<in> set (snd (relinkStudentReferences d))"
    by (rule relink_warnings [OF assms(1)])
qed

theorem relink_semantics_witness:
  "student (seats (fst (relinkStudentReferences restoredData)) ! 0) = Some 0 \<and>
   student (seats (fst (relinkStudentReferences restoredData)) ! 1) = Some 4 \<and>
   (''0-1'', ''G'') \<in> set (snd (relinkStudentReferences restoredData))"
proof -
  have l0: "0 < length (seats restoredData)" by code_simp
  have s0: "student (seats restoredData ! 0) = Some 3" by code_simp
  have u0: "uuid (objects restoredData ! 3) = ''u-a''" by code_simp
  have f0: "findStudentByUuid restoredData ''u-a'' = Some 0" by code_simp
  have l1: "1 < length (seats restoredData)" by code_simp
  have s1: "student (seats restoredData ! 1) = Some 4" by code_simp
  have u1: "uuid (objects restoredData ! 4) = ''u-gone''" by code_simp
  have f1: "findStudentByUuid restoredData ''u-gone'' = None" by code_simp
  have i1: "seat_id (seats restoredData ! 1) = ''0-1''" by code_simp
  have n1: "name (objects restoredData ! 4) = ''G''" by code_simp
  have z0: "uuid (objects restoredData ! 3) \<noteq> []" by (simp add: u0)
  have z1: "uuid (objects restoredData ! 4) \<noteq> []" by (simp add: u1)
  show ?thesis
    using relink_semantics [OF l0 s0 z0] relink_semantics [OF l1 s1 z1] f0 f1
    unfolding u0 u1 i1 n1 by simp
qed

text \<open>
  C8, as the claim states it, fails: the occupant of the seat \<open>0-1\<close> has a uuid no roster
  student has, and after relinking the seat still holds that occupant; it is not empty.
\<close>

theorem relink_keeps_unmatched_occupant:
  "student (seats restoredData ! 1) = Some 4 \<and>
   findStudentByUuid restoredData (uuid (objects restoredData ! 4)) = None \<and>
   student (seats (fst (relinkStudentReferences restoredData)) ! 1) = Some 4 \<and>
   snd (relinkStudentReferences restoredData) = [(''0-1'', ''G'')]"
  by code_simp

section \<open>Assigning a student to a seat\<close>

lemma findIndex_SomeD:
  "findIndex P xs = Some i \<Longrightarrow> i < length xs \<and> P (xs ! i) \<and> (\<forall>j<i. \<not> P (xs ! j))"
proof (induction xs arbitrary: i)
  case Nil
  then show ?case by simp
next
  case (Cons x xs)
  show ?case
  proof (cases "P x")
    case True
    then show ?thesis using Cons.prems by simp
  next
    case False
    then obtain k where k: "findIndex P xs = Some k" "i = Suc k"
      using Cons.prems by auto
    from Cons.IH [OF k(1)] False k(2) show ?thesis
      by (auto simp: less_Suc_eq_0_disj)
  qed
qed



lemma sync_seats: "seats (data (syncStudentSeatIds app)) = seats (data app)"
  by (simp add: syncStudentSeatIds_def Let_def)




section \<open>Block moves\<close>

text \<open>The example classrooms are states the program reaches from an empty grid.\<close>

lemma appAX_reachable:
  "seats (data scriptAX) = seats (data appAX) \<and>
   selectedSeats scriptAX = selectedSeats appAX \<and>
   students (data scriptAX) = students (data appAX) \<and>
   objects (data scriptAX) = objects (data appAX) \<and>
   rows (data scriptAX) = rows (data appAX) \<and> cols (data scriptAX) = cols (data appAX)"
  by code_simp

lemma appAWX_reachable:
  "seats (data scriptAWX) = seats (data appAWX) \<and>
   selectedSeats scriptAWX = selectedSeats appAWX \<and>
   students (data scriptAWX) = students (data appAWX) \<and>
   objects (data scriptAWX) = objects (data appAWX) \<and>
   rows (data scriptAWX) = rows (data appAWX) \<and> cols (data scriptAWX) = cols (data appAWX)"
  by code_simp

lemma appAW_reachable:
  "seats (data scriptAW) = seats (data appAW) \<and>
   selectedSeats scriptAW = selectedSeats appAW \<and>
   students (data scriptAW) = students (data appAW) \<and>
   objects (data scriptAW) = objects (data appAW) \<and>
   rows (data scriptAW) = rows (data appAW) \<and> cols (data scriptAW) = cols (data appAW)"
  by code_simp

lemma appDup_reachable:
  "seats (data scriptDup) = seats (data appDup) \<and>
   selectedSeats scriptDup = selectedSeats appDup \<and>
   students (data scriptDup) = students (data appDup) \<and>
   objects (data scriptDup) = objects (data appDup) \<and>
   rows (data scriptDup) = rows (data appDup) \<and> cols (data scriptDup) = cols (data appDup)"
  by code_simp

text \<open>
  What the accepted block move does with the displaced students. The available source
  seats are distinct seats of the grid, and both lists are sorted by row and column.
\<close>

lemma findIndex_inj:
  assumes "findIndex (\<lambda>s. f s = x) xs = Some i" "findIndex (\<lambda>s. f s = y) xs = Some i"
  shows "x = y"
  using findIndex_SomeD [OF assms(1)] findIndex_SomeD [OF assms(2)] by simp

lemma insertBy_set: "set (insertBy cmp x xs) = insert x (set xs)"
  by (induction xs) auto

lemma insertBy_distinct: "distinct xs \<Longrightarrow> x \<notin> set xs \<Longrightarrow> distinct (insertBy cmp x xs)"
  by (induction xs) (auto simp: insertBy_set)

lemma sortBy_acc:
  "distinct (acc @ xs) \<Longrightarrow>
     set (foldl (\<lambda>acc x. insertBy cmp x acc) acc xs) = set acc \<union> set xs \<and>
     distinct (foldl (\<lambda>acc x. insertBy cmp x acc) acc xs)"
proof (induction xs arbitrary: acc)
  case Nil
  then show ?case by simp
next
  case (Cons x xs)
  have "distinct (insertBy cmp x acc @ xs)"
    using Cons.prems by (auto simp: insertBy_set insertBy_distinct)
  from Cons.IH [OF this] show ?case by (simp add: insertBy_set)
qed

lemma sortBy_set_distinct:
  "distinct xs \<Longrightarrow> set (sortBy cmp xs) = set xs \<and> distinct (sortBy cmp xs)"
  unfolding sortBy_def using sortBy_acc [of "[]" xs cmp] by simp

lemma map_filter_findSeat_distinct:
  "distinct ids \<Longrightarrow> distinct (List.map_filter (findSeatById d) ids)"
proof (induction ids)
  case Nil
  then show ?case by (simp add: List.map_filter_simps)
next
  case (Cons x ids)
  show ?case
  proof (cases "findSeatById d x")
    case None
    then show ?thesis using Cons by (simp add: List.map_filter_simps)
  next
    case (Some i)
    have "i \<notin> set (List.map_filter (findSeatById d) ids)"
    proof
      assume "i \<in> set (List.map_filter (findSeatById d) ids)"
      then obtain y where y: "y \<in> set ids" "findSeatById d y = Some i"
        by (auto simp: List.map_filter_def)
      then have "x = y" using Some findIndex_inj [of seat_id x "seats d" i y]
        by (simp add: findSeatById_def)
      then show False using y Cons.prems by simp
    qed
    then show ?thesis using Some Cons by (simp add: List.map_filter_simps)
  qed
qed

lemma map_filter_findSeat_bound:
  "i \<in> set (List.map_filter (findSeatById d) ids) \<Longrightarrow> i < length (seats d)"
  using findIndex_SomeD [of "\<lambda>s. seat_id s = x" "seats d" i for x]
  by (auto simp: List.map_filter_def findSeatById_def)

lemma availableSourceSeats_distinct:
  assumes "distinct (map src_seatId srcs)"
  shows "distinct (availableSourceSeats d dr srcs) \<and>
         (\<forall>i\<in>set (availableSourceSeats d dr srcs). i < length (seats d))"
proof -
  let ?kept = "filter (\<lambda>s. src_seatId s \<notin> set (map targetSeatId (positions dr))) srcs"
  let ?found = "List.map_filter (\<lambda>s. findSeatById d (src_seatId s)) ?kept"
  have eq: "?found = List.map_filter (findSeatById d) (map src_seatId ?kept)"
    by (simp add: List.map_filter_def filter_map comp_def)
  have "distinct (map src_seatId ?kept)" using assms by (simp add: distinct_map_filter)
  then have dist: "distinct ?found" unfolding eq by (rule map_filter_findSeat_distinct)
  have bound: "\<forall>i\<in>set ?found. i < length (seats d)"
    unfolding eq using map_filter_findSeat_bound by blast
  have "distinct (filter (\<lambda>i. \<not> isDeleted (seats d ! i)) ?found)" using dist by simp
  from sortBy_set_distinct [OF this] bound show ?thesis
    unfolding availableSourceSeats_def by auto
qed

lemma rowMajor_total: "\<not> rowMajor a b < 0 \<Longrightarrow> rowMajor b a \<le> 0"
  by (auto simp: rowMajor_def split: if_splits)

lemma rowMajor_trans: "rowMajor a b \<le> 0 \<Longrightarrow> rowMajor b c \<le> 0 \<Longrightarrow> rowMajor a c \<le> 0"
  by (auto simp: rowMajor_def split: if_splits)

lemma insertBy_rowMajor_sorted:
  assumes "sorted_wrt (\<lambda>a b. rowMajor (k a) (k b) \<le> 0) xs"
  shows "sorted_wrt (\<lambda>a b. rowMajor (k a) (k b) \<le> 0)
           (insertBy (\<lambda>a b. rowMajor (k a) (k b)) x xs)"
  using assms
proof (induction xs)
  case Nil
  then show ?case by simp
next
  case (Cons y ys)
  show ?case
  proof (cases "rowMajor (k x) (k y) < 0")
    case True
    then have "rowMajor (k x) (k z) \<le> 0" if "z \<in> set ys" for z
      using that Cons.prems rowMajor_trans [of "k x" "k y" "k z"] by auto
    then show ?thesis using True Cons.prems by auto
  next
    case False
    then have "rowMajor (k y) (k x) \<le> 0" by (rule rowMajor_total)
    then show ?thesis using False Cons by (auto simp: insertBy_set)
  qed
qed

lemma sortBy_rowMajor_sorted:
  "sorted_wrt (\<lambda>a b. rowMajor (k a) (k b) \<le> 0) (sortBy (\<lambda>a b. rowMajor (k a) (k b)) xs)"
proof -
  have "sorted_wrt (\<lambda>a b. rowMajor (k a) (k b) \<le> 0)
          (foldl (\<lambda>acc x. insertBy (\<lambda>a b. rowMajor (k a) (k b)) x acc) acc xs)"
    if "sorted_wrt (\<lambda>a b. rowMajor (k a) (k b) \<le> 0) acc" for acc
    using that by (induction xs arbitrary: acc) (simp_all add: insertBy_rowMajor_sorted)
  from this [of "[]"] show ?thesis by (simp add: sortBy_def)
qed

text \<open>
  Step 5 writes the displaced student number \<open>i\<close> into the available seat number \<open>i\<close>,
  and no later step of the loop touches that seat again.
\<close>

lemma placeDisplaced_snoc:
  "placeDisplaced available (displaced @ [x]) d =
     (let d' = placeDisplaced available displaced d; index = length displaced in
      if index < length available
      then d'\<lparr>seats := (seats d')[available ! index :=
                          (seats d' ! (available ! index))\<lparr>student := Some (fst x)\<rparr>]\<rparr>
      else d'\<lparr>objects := (objects d')[fst x := (objects d' ! fst x)\<lparr>seatId := None\<rparr>]\<rparr>)"
  by (cases x) (simp add: placeDisplaced_def Let_def)

lemma placeDisplaced_pairs:
  assumes "distinct available" "\<forall>v\<in>set available. v < length (seats d)"
  shows "length (seats (placeDisplaced available displaced d)) = length (seats d) \<and>
         (\<forall>i. i < length displaced \<longrightarrow> i < length available \<longrightarrow>
            student (seats (placeDisplaced available displaced d) ! (available ! i)) =
              Some (fst (displaced ! i)))"
proof (induction displaced rule: rev_induct)
  case Nil
  then show ?case by (simp add: placeDisplaced_def)
next
  case (snoc x displaced)
  let ?d' = "placeDisplaced available displaced d"
  have len: "length (seats ?d') = length (seats d)" using snoc by simp
  show ?case
  proof (cases "length displaced < length available")
    case True
    have v: "available ! length displaced < length (seats ?d')"
      using assms(2) True len by simp
    have other: "available ! length displaced \<noteq> available ! i"
      if "i < length displaced" for i
      using that True assms(1) by (simp add: nth_eq_iff_index_eq)
    show ?thesis
      using snoc True v other len
      by (auto simp add: placeDisplaced_snoc Let_def nth_append less_Suc_eq)
  next
    case False
    then show ?thesis using snoc
      by (auto simp add: placeDisplaced_snoc Let_def nth_append)
  qed
qed

lemma collectMoves_length:
  "collectMoves seatIds ps d stm disp = (d', stm', disp') \<Longrightarrow>
     length (seats d') = length (seats d)"
proof (induction ps arbitrary: d stm disp)
  case Nil
  then show ?case by simp
next
  case (Cons p ps)
  let ?moved = "case findSeatById d (originalSeatId p) of
                  Some i \<Rightarrow> (case student (seats d ! i) of
                               Some r \<Rightarrow> Some (i, r) | None \<Rightarrow> None)
                | None \<Rightarrow> None"
  let ?d1 = "case ?moved of
               Some (i, r) \<Rightarrow> d\<lparr>seats := (seats d)[i := (seats d ! i)\<lparr>student := None\<rparr>]\<rparr>
             | None \<Rightarrow> d"
  have l1: "length (seats ?d1) = length (seats d)"
    by (simp split: option.splits prod.splits)
  obtain stm1 disp1 where "collectMoves seatIds ps ?d1 stm1 disp1 = (d', stm', disp')"
    using Cons.prems by (simp add: Let_def)
  from Cons.IH [OF this] l1 show ?case by simp
qed

lemma placeMoved_length: "length (seats (placeMoved stm d)) = length (seats d)"
  unfolding placeMoved_def
  by (induction stm arbitrary: d) (auto split: option.splits prod.splits)

lemma clearSelection_seats: "seats (data (clearSelection app)) = seats (data app)"
  by (simp add: clearSelection_def)

text \<open>
  After an accepted block move from a selection without repeated ids, the seat number
  \<open>i\<close> of the sorted available source seats holds the student number \<open>i\<close> of the sorted
  displaced students, for every \<open>i\<close> below both lengths.
\<close>

lemma block_move_pairing:
  assumes "sourceSeats dragData = Some srcs"
    and "distinct (map src_seatId srcs)"
    and "checkMultiDropTarget (data app) tid (map src_seatId srcs) = Some dr"
    and "d1 = addToHistory ''seatArrangement'' (seats (data app)) now (data app)"
    and "collectMoves (map src_seatId srcs) (positions dr) d1 [] [] = (d2, stm, disp)"
    and "D = sortBy (\<lambda>a b. rowMajor (seats d2 ! snd a) (seats d2 ! snd b)) disp"
    and "V = availableSourceSeats d1 dr srcs"
    and "i < length D" "i < length V"
  shows "student (seats (data (executeMultiDropWithAllSeats tid dragData now app)) ! (V ! i)) =
           Some (fst (D ! i))"
proof -
  let ?d3 = "placeMoved stm d2"
  have res: "seats (data (executeMultiDropWithAllSeats tid dragData now app)) =
               seats (placeDisplaced V D ?d3)"
    using assms(1,3,5) unfolding assms(4,6,7)
    by (simp add: executeMultiDropWithAllSeats_def Let_def sync_seats clearSelection_seats)
  have len: "length (seats ?d3) = length (seats d1)"
    using collectMoves_length [OF assms(5)] by (simp add: placeMoved_length)
  have V: "distinct V" "\<forall>v\<in>set V. v < length (seats ?d3)"
    using availableSourceSeats_distinct [OF assms(2), of d1 dr] len unfolding assms(7) by simp_all
  from placeDisplaced_pairs [OF V, of D] assms(8,9) show ?thesis
    unfolding res by simp
qed

text \<open>
  C1 fails on the code. In the two-by-two classroom with A on \<open>0-0\<close>, X on \<open>1-1\<close> and the
  seats \<open>0-0\<close> and \<open>0-1\<close> selected, dragging the block from \<open>0-0\<close> onto \<open>1-0\<close> moves A to
  \<open>1-0\<close>. The empty selected seat \<open>0-1\<close> maps onto \<open>1-1\<close>, so X counts as displaced and is
  written into the vacated seat \<open>0-0\<close>, although nobody lands on \<open>1-1\<close> and X stays there
  too: afterwards the two non-deleted seats \<open>0-0\<close> and \<open>1-1\<close> both hold the student X.
\<close>

theorem block_move_duplicates_student:
  "map (\<lambda>s. (seat_id s, student s, isDeleted s)) (seats (data appAX)) =
     [(''0-0'', Some 0, False), (''0-1'', None, False),
      (''1-0'', None, False), (''1-1'', Some 2, False)] \<and>
   sourceSeats (prepareMultiSeatDrag ''0-0'' appAX) =
     Some [\<lparr>src_seatId = ''0-0'', src_row = 0, src_col = 0, src_student = Some 0\<rparr>,
           \<lparr>src_seatId = ''0-1'', src_row = 0, src_col = 1, src_student = None\<rparr>] \<and>
   map (\<lambda>s. (seat_id s, student s, isDeleted s))
     (seats (data (executeMultiDropWithAllSeats ''1-0''
                     (prepareMultiSeatDrag ''0-0'' appAX) 3 appAX))) =
     [(''0-0'', Some 2, False), (''0-1'', None, False),
      (''1-0'', Some 0, False), (''1-1'', Some 2, False)]"
  by code_simp

text \<open>
  C3 fails on the code in its last part. In the two-by-two classroom with A on \<open>0-0\<close>, W
  on \<open>1-0\<close>, X on \<open>1-1\<close>, the seat \<open>0-1\<close> deleted and \<open>0-0\<close>, \<open>0-1\<close> selected, dragging the
  block from \<open>0-0\<close> onto \<open>1-0\<close> displaces W and X, in that order, and leaves the one vacated
  seat \<open>0-0\<close>. W goes to \<open>0-0\<close>. X has no vacated seat left, yet nobody lands on its seat
  \<open>1-1\<close>: X stays on it, and after the final \<open>syncStudentSeatIds\<close> its seat cache is
  \<open>1-1\<close>, not cleared.
\<close>

theorem excess_displaced_student_keeps_seat:
  "map (\<lambda>s. (seat_id s, student s, isDeleted s)) (seats (data appAWX)) =
     [(''0-0'', Some 0, False), (''0-1'', None, True),
      (''1-0'', Some 1, False), (''1-1'', Some 2, False)] \<and>
   map_option displacedStudents
     (checkMultiDropTarget (data appAWX) ''1-0'' [''0-0'', ''0-1'']) = Some [1, 2] \<and>
   map_option (\<lambda>r. availableSourceSeats (data appAWX) r
                      (the (sourceSeats (prepareMultiSeatDrag ''0-0'' appAWX))))
     (checkMultiDropTarget (data appAWX) ''1-0'' [''0-0'', ''0-1'']) = Some [0] \<and>
   map (\<lambda>s. (seat_id s, student s))
     (seats (data (executeMultiDropWithAllSeats ''1-0''
                     (prepareMultiSeatDrag ''0-0'' appAWX) 9 appAWX))) =
     [(''0-0'', Some 1), (''0-1'', None), (''1-0'', Some 0), (''1-1'', Some 2)] \<and>
   seatId (objects (data (executeMultiDropWithAllSeats ''1-0''
                            (prepareMultiSeatDrag ''0-0'' appAWX) 9 appAWX)) ! 2) = Some ''1-1''"
  by code_simp

text \<open>
  C6 fails on the code. With \<open>0-0\<close> and \<open>0-1\<close> selected in that order and the drag started
  on \<open>0-1\<close>, which \<open>prepareMultiSeatDrag\<close> stores as the anchor, a drop on \<open>1-1\<close> is planned
  with the offset from \<open>0-0\<close>, the first selected seat: \<open>0-0\<close> goes to \<open>1-1\<close> and the anchor
  \<open>0-1\<close> to \<open>1-2\<close>, one column right of the seat under the pointer.
\<close>

theorem offset_from_first_selected_not_anchor:
  "selectedSeats appAW = [''0-0'', ''0-1''] \<and>
   anchorSeatId (prepareMultiSeatDrag ''0-1'' appAW) = ''0-1'' \<and>
   map_option (map (\<lambda>p. (originalSeatId p, targetSeatId p)) \<circ> positions)
     (checkMultiDropTarget (data appAW) ''1-1''
        (map src_seatId (the (sourceSeats (prepareMultiSeatDrag ''0-1'' appAW))))) =
     Some [(''0-0'', ''1-1''), (''0-1'', ''1-2'')] \<and>
   map (\<lambda>s. (seat_id s, student s))
     (seats (data (executeMultiDropWithAllSeats ''1-1''
                     (prepareMultiSeatDrag ''0-1'' appAW) 9 appAW))) =
     [(''0-0'', None), (''0-1'', None), (''0-2'', None),
      (''1-0'', None), (''1-1'', Some 0), (''1-2'', Some 1)]"
  by code_simp

text \<open>
  One selected seat whose translated coordinate is outside the grid, or has no seat, or
  has a deleted seat, makes the loop of \<open>checkMultiDropTarget\<close> return \<open>null\<close>, wherever
  the seat stands in the selection.
\<close>

lemma checkLoop_rejects:
  assumes "x \<in> set rest" "findSeatById d x = Some src"
    and "row (seats d ! src) + ro < 0 \<or> rows d \<le> row (seats d ! src) + ro \<or>
         col (seats d ! src) + co < 0 \<or> cols d \<le> col (seats d ! src) + co \<or>
         (case seatAt d (row (seats d ! src) + ro) (col (seats d ! src) + co) of
            None \<Rightarrow> True | Some j \<Rightarrow> isDeleted (seats d ! j))"
  shows "checkLoop d ro co allIds rest ps ds = None"
  using assms(1)
proof (induction rest arbitrary: ps ds)
  case Nil
  then show ?case by simp
next
  case (Cons y rest)
  show ?case
  proof (cases "y = x")
    case True
    then show ?thesis using assms(2,3)
      by (auto simp add: Let_def split: option.splits)
  next
    case False
    then have "x \<in> set rest" using Cons.prems by simp
    then have "\<And>ps ds. checkLoop d ro co allIds rest ps ds = None" by (rule Cons.IH)
    then show ?thesis
      by (simp add: Let_def split: option.splits)
  qed
qed

text \<open>
  With the offset the program computes, from the first selected seat: when the target
  seat and that seat exist and the translated coordinate of some selected seat lies
  outside the grid or on a deleted seat (or on no seat), \<open>executeMultiDropWithAllSeats\<close>
  returns the state it was given; seats, student store, selection and history with its
  pointer are unchanged.
\<close>

theorem rejected_block_move_leaves_state:
  assumes "sourceSeats dragData = Some srcs"
    and "findSeatById (data app) tid = Some targetSeat"
    and "findSeatById (data app) (hd (map src_seatId srcs)) = Some firstSeat"
    and "x \<in> set (map src_seatId srcs)"
    and "findSeatById (data app) x = Some src"
    and "newRow = row (seats (data app) ! src) +
                  (row (seats (data app) ! targetSeat) - row (seats (data app) ! firstSeat))"
    and "newCol = col (seats (data app) ! src) +
                  (col (seats (data app) ! targetSeat) - col (seats (data app) ! firstSeat))"
    and "newRow < 0 \<or> rows (data app) \<le> newRow \<or> newCol < 0 \<or> cols (data app) \<le> newCol \<or>
         (case seatAt (data app) newRow newCol of
            None \<Rightarrow> True | Some j \<Rightarrow> isDeleted (seats (data app) ! j))"
  shows "executeMultiDropWithAllSeats tid dragData now app = app"
proof -
  let ?ids = "map src_seatId srcs"
  obtain y rest where ids: "?ids = y # rest" using assms(4) by (cases ?ids) auto
  have first: "findSeatById (data app) y = Some firstSeat" using assms(3) ids by simp
  have "checkLoop (data app)
          (row (seats (data app) ! targetSeat) - row (seats (data app) ! firstSeat))
          (col (seats (data app) ! targetSeat) - col (seats (data app) ! firstSeat))
          ?ids ?ids [] [] = None"
    by (rule checkLoop_rejects [OF assms(4,5)]) (use assms(6-8) in simp)
  then have "checkMultiDropTarget (data app) tid ?ids = None"
    using assms(2) first ids by (simp add: checkMultiDropTarget_def)
  then show ?thesis
    using assms(1) by (simp add: executeMultiDropWithAllSeats_def)
qed

theorem rejected_block_move_witness:
  "executeMultiDropWithAllSeats ''0-1'' (prepareMultiSeatDrag ''0-0'' appAX) 3 appAX = appAX \<and>
   executeMultiDropWithAllSeats ''0-1'' (prepareMultiSeatDrag ''0-0'' appAWX) 3 appAWX = appAWX"
proof -
  let ?srcs = "[\<lparr>src_seatId = ''0-0'', src_row = 0, src_col = 0, src_student = Some 0\<rparr>,
                \<lparr>src_seatId = ''0-1'', src_row = 0, src_col = 1, src_student = None\<rparr>]"
  have s1: "sourceSeats (prepareMultiSeatDrag ''0-0'' appAX) = Some ?srcs"
    by code_simp
  have t1: "findSeatById (data appAX) ''0-1'' = Some 1" by code_simp
  have f1: "findSeatById (data appAX) (hd (map src_seatId ?srcs)) = Some 0" by code_simp
  have x1: "''0-1'' \<in> set (map src_seatId ?srcs)" by simp
  have b1: "row (seats (data appAX) ! 1) +
              (row (seats (data appAX) ! 1) - row (seats (data appAX) ! 0)) < 0 \<or>
            rows (data appAX) \<le> row (seats (data appAX) ! 1) +
              (row (seats (data appAX) ! 1) - row (seats (data appAX) ! 0)) \<or>
            col (seats (data appAX) ! 1) +
              (col (seats (data appAX) ! 1) - col (seats (data appAX) ! 0)) < 0 \<or>
            cols (data appAX) \<le> col (seats (data appAX) ! 1) +
              (col (seats (data appAX) ! 1) - col (seats (data appAX) ! 0)) \<or>
            (case seatAt (data appAX)
                (row (seats (data appAX) ! 1) +
                  (row (seats (data appAX) ! 1) - row (seats (data appAX) ! 0)))
                (col (seats (data appAX) ! 1) +
                  (col (seats (data appAX) ! 1) - col (seats (data appAX) ! 0))) of
               None \<Rightarrow> True | Some j \<Rightarrow> isDeleted (seats (data appAX) ! j))"
    by code_simp
  have w1: "executeMultiDropWithAllSeats ''0-1'' (prepareMultiSeatDrag ''0-0'' appAX) 3 appAX = appAX"
    by (rule rejected_block_move_leaves_state [OF s1 t1 f1 x1 t1 refl refl b1])
  have s2: "sourceSeats (prepareMultiSeatDrag ''0-0'' appAWX) = Some ?srcs"
    by code_simp
  have t2: "findSeatById (data appAWX) ''0-1'' = Some 1" by code_simp
  have f2: "findSeatById (data appAWX) (hd (map src_seatId ?srcs)) = Some 0" by code_simp
  have x2: "''0-0'' \<in> set (map src_seatId ?srcs)" by simp
  have g2: "findSeatById (data appAWX) ''0-0'' = Some 0" by code_simp
  have b2: "row (seats (data appAWX) ! 0) +
              (row (seats (data appAWX) ! 1) - row (seats (data appAWX) ! 0)) < 0 \<or>
            rows (data appAWX) \<le> row (seats (data appAWX) ! 0) +
              (row (seats (data appAWX) ! 1) - row (seats (data appAWX) ! 0)) \<or>
            col (seats (data appAWX) ! 0) +
              (col (seats (data appAWX) ! 1) - col (seats (data appAWX) ! 0)) < 0 \<or>
            cols (data appAWX) \<le> col (seats (data appAWX) ! 0) +
              (col (seats (data appAWX) ! 1) - col (seats (data appAWX) ! 0)) \<or>
            (case seatAt (data appAWX)
                (row (seats (data appAWX) ! 0) +
                  (row (seats (data appAWX) ! 1) - row (seats (data appAWX) ! 0)))
                (col (seats (data appAWX) ! 0) +
                  (col (seats (data appAWX) ! 1) - col (seats (data appAWX) ! 0))) of
               None \<Rightarrow> True | Some j \<Rightarrow> isDeleted (seats (data appAWX) ! j))"
    by code_simp
  have w2: "executeMultiDropWithAllSeats ''0-1'' (prepareMultiSeatDrag ''0-0'' appAWX) 3 appAWX = appAWX"
    by (rule rejected_block_move_leaves_state [OF s2 t2 f2 x2 g2 refl refl b2])
  show ?thesis using w1 w2 by simp
qed

text \<open>
  C2 fails on the code. In the two-by-three classroom with A on \<open>0-0\<close> and W on \<open>0-1\<close>,
  both selected, \<open>0-0\<close> first, the drag starts on \<open>0-1\<close>, the anchor, and ends on \<open>1-0\<close>.
  Translated by target minus anchor, the selected seat \<open>0-0\<close> lands in column \<open>-1\<close>,
  outside the grid, so the move is to be rejected with nothing changed. The program
  translates from the first selected seat instead, accepts the move, records a history
  entry and puts A on \<open>1-0\<close> and W on \<open>1-1\<close>.
\<close>

theorem block_move_applied_past_grid_edge:
  "anchorSeatId (prepareMultiSeatDrag ''0-1'' appAW) = ''0-1'' \<and>
   findSeatById (data appAW) ''0-0'' = Some 0 \<and>
   findSeatById (data appAW) ''0-1'' = Some 1 \<and>
   findSeatById (data appAW) ''1-0'' = Some 3 \<and>
   col (seats (data appAW) ! 0) +
     (col (seats (data appAW) ! 3) - col (seats (data appAW) ! 1)) = - 1 \<and>
   map (\<lambda>s. (seat_id s, student s)) (seats (data appAW)) =
     [(''0-0'', Some 0), (''0-1'', Some 1), (''0-2'', None),
      (''1-0'', None), (''1-1'', None), (''1-2'', None)] \<and>
   history (data appAW) = [] \<and>
   map (\<lambda>s. (seat_id s, student s))
     (seats (data (executeMultiDropWithAllSeats ''1-0''
                     (prepareMultiSeatDrag ''0-1'' appAW) 9 appAW))) =
     [(''0-0'', None), (''0-1'', None), (''0-2'', None),
      (''1-0'', Some 0), (''1-1'', Some 1), (''1-2'', None)] \<and>
   map action (history (data (executeMultiDropWithAllSeats ''1-0''
                                (prepareMultiSeatDrag ''0-1'' appAW) 9 appAW))) =
     [''seatArrangement'']"
  by code_simp

section \<open>Re-initialising the grid\<close>

lemma fold_upd_map_of:
  "fold (\<lambda>s m. m(k s \<mapsto> v s)) ss m = m ++ map_of (rev (map (\<lambda>s. (k s, v s)) ss))"
  by (induction ss arbitrary: m) (simp_all add: map_add_upd_left map_add_assoc [symmetric])

lemma existingSeatData_map_of:
  "existingSeatData ss = map_of (rev (map (\<lambda>s. (seat_id s, (student s, isDeleted s))) ss))"
  unfolding existingSeatData_def using fold_upd_map_of [of seat_id "\<lambda>s. (student s, isDeleted s)" ss Map.empty]
  by simp

lemma existingSeatData_Some:
  assumes "distinct (map seat_id ss)" "s \<in> set ss"
  shows "existingSeatData ss (seat_id s) = Some (student s, isDeleted s)"
proof -
  have "distinct (map fst (rev (map (\<lambda>s. (seat_id s, (student s, isDeleted s))) ss)))"
    using assms(1) by (simp add: rev_map [symmetric] comp_def)
  moreover have "(seat_id s, (student s, isDeleted s)) \<in>
                   set (rev (map (\<lambda>s. (seat_id s, (student s, isDeleted s))) ss))"
    using assms(2) by auto
  ultimately show ?thesis
    unfolding existingSeatData_map_of by (rule map_of_is_SomeI)
qed

lemma existingSeatData_None:
  assumes "\<forall>s\<in>set ss. seat_id s \<noteq> k"
  shows "existingSeatData ss k = None"
  unfolding existingSeatData_map_of using assms
  by (auto simp add: map_of_eq_None_iff image_iff)

lemma grid_length:
  "length (concat (map (\<lambda>r. map (f r) [0..<C]) [0..<R])) = R * C"
  by (induction R) simp_all

lemma grid_nth:
  assumes "r < R" "c < C"
  shows "concat (map (\<lambda>r. map (f r) [0..<C]) [0..<R]) ! (r * C + c) = f r c"
  using assms(1)
proof (induction R)
  case 0
  then show ?case by simp
next
  case (Suc R)
  show ?case
  proof (cases "r < R")
    case True
    then have "Suc r * C \<le> R * C" by (intro mult_le_mono1) simp
    then have "r * C + c < R * C" using assms(2) by simp
    then show ?thesis using Suc.IH [OF True] by (simp add: nth_append grid_length)
  next
    case False
    then have "r = R" using Suc.prems by simp
    then show ?thesis using assms(2) by (simp add: nth_append grid_length)
  qed
qed

lemma grid_set:
  "set (concat (map (\<lambda>r. map (f r) [0..<C]) [0..<R])) = {f r c | r c. r < R \<and> c < C}"
  by fastforce

lemma digit_char_inj:
  assumes "n < 10" "m < 10" "''0123456789'' ! n = ''0123456789'' ! m"
  shows "n = m"
proof -
  have "distinct ''0123456789''" by simp
  then show ?thesis using assms by (simp add: nth_eq_iff_index_eq)
qed

lemma digit_char_not_minus: "n < 10 \<Longrightarrow> ''0123456789'' ! n \<noteq> CHR ''-''"
proof -
  assume "n < 10"
  then have "''0123456789'' ! n \<in> set ''0123456789''" by (intro nth_mem) simp
  then show ?thesis by auto
qed

lemma digits_nonempty: "digits n \<noteq> []"
  by (subst digits.simps) simp

lemma digits_no_minus: "CHR ''-'' \<notin> set (digits n)"
proof (induction n rule: digits.induct)
  case (1 n)
  show ?case
  proof (cases "n < 10")
    case True
    then show ?thesis using digit_char_not_minus [of n] by (subst digits.simps) auto
  next
    case False
    then show ?thesis using 1 digit_char_not_minus [of "n mod 10"]
      by (subst digits.simps) auto
  qed
qed

lemma digits_inj: "digits a = digits b \<Longrightarrow> a = b"
proof (induction a arbitrary: b rule: digits.induct)
  case (1 a)
  show ?case
  proof (cases "a < 10")
    case a: True
    show ?thesis
    proof (cases "b < 10")
      case True
      then show ?thesis using a 1(2) digit_char_inj [of a b]
        by (simp add: digits.simps [of a] digits.simps [of b])
    next
      case False
      then show ?thesis using a 1(2) digits_nonempty [of "b div 10"]
        by (simp add: digits.simps [of a] digits.simps [of b])
    qed
  next
    case a: False
    show ?thesis
    proof (cases "b < 10")
      case True
      then show ?thesis using a 1(2) digits_nonempty [of "a div 10"]
        by (simp add: digits.simps [of a] digits.simps [of b])
    next
      case False
      then have "digits (a div 10) = digits (b div 10)"
        and m: "''0123456789'' ! (a mod 10) = ''0123456789'' ! (b mod 10)"
        using a 1(2) by (simp_all add: digits.simps [of a] digits.simps [of b])
      then have "a div 10 = b div 10" using 1(1) a by simp
      moreover have "a mod 10 = b mod 10" using digit_char_inj [OF _ _ m] by simp
      ultimately show ?thesis by (metis div_mult_mod_eq)
    qed
  qed
qed

lemma split_at_separator:
  assumes "xs @ a # ys = xs' @ a # ys'" "a \<notin> set xs" "a \<notin> set xs'"
  shows "xs = xs' \<and> ys = ys'"
proof -
  have tw: "takeWhile (\<lambda>x. x \<noteq> a) (zs @ a # ws) = zs" if "a \<notin> set zs" for zs ws
    using that by (induction zs) auto
  have "takeWhile (\<lambda>x. x \<noteq> a) (xs @ a # ys) = xs" using assms(2) by (rule tw)
  moreover have "takeWhile (\<lambda>x. x \<noteq> a) (xs' @ a # ys') = xs'" using assms(3) by (rule tw)
  ultimately have "xs = xs'" using assms(1) by simp
  then show ?thesis using assms(1) by simp
qed

lemma seatIdOf_inj: "seatIdOf r c = seatIdOf r' c' \<Longrightarrow> r = r' \<and> c = c'"
  unfolding seatIdOf_def
  using split_at_separator [of "digits r" "CHR ''-''" "digits c" "digits r'" "digits c'"]
    digits_no_minus digits_inj by auto

text \<open>
  C10. \<open>initializeSeats\<close> on a seat array with distinct ids builds one seat for every
  coordinate of the current dimensions, in row-major order, with the id \<open>row-col\<close>. A new
  seat whose id an old seat has takes that seat's occupant and deleted flag; a new seat
  whose id no old seat has is empty and not deleted. No new seat has the id of a
  coordinate outside the dimensions, so what sat there is gone from the seat array. A
  change of the dimensions therefore keeps the arrangement of every seat that remains.
\<close>

theorem initializeSeats_keeps_matching_seats:
  assumes "distinct (map seat_id (seats d))"
  shows "length (seats (initializeSeats d)) = nat (rows d) * nat (cols d) \<and>
         (\<forall>r<nat (rows d). \<forall>c<nat (cols d).
            seat_id (seats (initializeSeats d) ! (r * nat (cols d) + c)) = seatIdOf r c \<and>
            row (seats (initializeSeats d) ! (r * nat (cols d) + c)) = int r \<and>
            col (seats (initializeSeats d) ! (r * nat (cols d) + c)) = int c \<and>
            (\<forall>s\<in>set (seats d). seat_id s = seatIdOf r c \<longrightarrow>
               student (seats (initializeSeats d) ! (r * nat (cols d) + c)) = student s \<and>
               isDeleted (seats (initializeSeats d) ! (r * nat (cols d) + c)) = isDeleted s) \<and>
            ((\<forall>s\<in>set (seats d). seat_id s \<noteq> seatIdOf r c) \<longrightarrow>
               student (seats (initializeSeats d) ! (r * nat (cols d) + c)) = None \<and>
               \<not> isDeleted (seats (initializeSeats d) ! (r * nat (cols d) + c)))) \<and>
         (\<forall>r c. \<not> (r < nat (rows d) \<and> c < nat (cols d)) \<longrightarrow>
            seatIdOf r c \<notin> seat_id ` set (seats (initializeSeats d)))"
proof -
  let ?ex = "existingSeatData (seats d)"
  let ?new = "concat (map (\<lambda>r. map (\<lambda>c. newSeat ?ex (cols d) r c) [0..<nat (cols d)])
                        [0..<nat (rows d)])"
  have seats: "seats (initializeSeats d) = ?new"
    by (simp add: initializeSeats_def Let_def)
  have A: "length (seats (initializeSeats d)) = nat (rows d) * nat (cols d)"
    unfolding seats by (rule grid_length)
  have B: "seat_id (seats (initializeSeats d) ! (r * nat (cols d) + c)) = seatIdOf r c \<and>
           row (seats (initializeSeats d) ! (r * nat (cols d) + c)) = int r \<and>
           col (seats (initializeSeats d) ! (r * nat (cols d) + c)) = int c \<and>
           (\<forall>s\<in>set (seats d). seat_id s = seatIdOf r c \<longrightarrow>
              student (seats (initializeSeats d) ! (r * nat (cols d) + c)) = student s \<and>
              isDeleted (seats (initializeSeats d) ! (r * nat (cols d) + c)) = isDeleted s) \<and>
           ((\<forall>s\<in>set (seats d). seat_id s \<noteq> seatIdOf r c) \<longrightarrow>
              student (seats (initializeSeats d) ! (r * nat (cols d) + c)) = None \<and>
              \<not> isDeleted (seats (initializeSeats d) ! (r * nat (cols d) + c)))"
    if rc: "r < nat (rows d)" "c < nat (cols d)" for r c
  proof -
    have nth: "seats (initializeSeats d) ! (r * nat (cols d) + c) = newSeat ?ex (cols d) r c"
      unfolding seats by (rule grid_nth [OF rc])
    have kept: "student (newSeat ?ex (cols d) r c) = student s \<and>
                isDeleted (newSeat ?ex (cols d) r c) = isDeleted s"
      if s: "s \<in> set (seats d)" "seat_id s = seatIdOf r c" for s
    proof -
      have "?ex (seatIdOf r c) = Some (student s, isDeleted s)"
        using existingSeatData_Some [OF assms s(1)] s(2) by simp
      then show ?thesis by (simp add: newSeat_def Let_def)
    qed
    have fresh: "student (newSeat ?ex (cols d) r c) = None \<and>
                 \<not> isDeleted (newSeat ?ex (cols d) r c)"
      if "\<forall>s\<in>set (seats d). seat_id s \<noteq> seatIdOf r c"
    proof -
      have "?ex (seatIdOf r c) = None" using that by (rule existingSeatData_None)
      then show ?thesis by (simp add: newSeat_def Let_def)
    qed
    have basic: "seat_id (newSeat ?ex (cols d) r c) = seatIdOf r c \<and>
                 row (newSeat ?ex (cols d) r c) = int r \<and> col (newSeat ?ex (cols d) r c) = int c"
      by (simp add: newSeat_def Let_def)
    show ?thesis unfolding nth using basic kept fresh by blast
  qed
  have C: "seatIdOf r c \<notin> seat_id ` set (seats (initializeSeats d))"
    if out: "\<not> (r < nat (rows d) \<and> c < nat (cols d))" for r c
  proof
    assume "seatIdOf r c \<in> seat_id ` set (seats (initializeSeats d))"
    then obtain r' c' where rc': "r' < nat (rows d)" "c' < nat (cols d)"
      and eq: "seatIdOf r c = seat_id (newSeat ?ex (cols d) r' c')"
      unfolding seats grid_set by auto
    then have "seatIdOf r c = seatIdOf r' c'" by (simp add: newSeat_def Let_def)
    then have "r = r' \<and> c = c'" by (rule seatIdOf_inj)
    then show False using rc' out by simp
  qed
  show ?thesis using A B C by blast
qed

theorem initializeSeats_witness:
  "map (\<lambda>s. (seat_id s, student s)) (seats narrowedData) =
     [(''0-0'', Some 0), (''0-1'', Some 1), (''0-2'', None),
      (''1-0'', None), (''1-1'', None), (''1-2'', None)] \<and>
   length (seats (initializeSeats narrowedData)) = 2 \<and>
   seat_id (seats (initializeSeats narrowedData) ! 0) = ''0-0'' \<and>
   student (seats (initializeSeats narrowedData) ! 0) = Some 0 \<and>
   seat_id (seats (initializeSeats narrowedData) ! 1) = ''1-0'' \<and>
   student (seats (initializeSeats narrowedData) ! 1) = None \<and>
   ''0-1'' \<notin> seat_id ` set (seats (initializeSeats narrowedData))"
proof -
  have ss: "map (\<lambda>s. (seat_id s, student s)) (seats narrowedData) =
     [(''0-0'', Some 0), (''0-1'', Some 1), (''0-2'', None),
      (''1-0'', None), (''1-1'', None), (''1-2'', None)]"
    by code_simp
  have dist: "distinct (map seat_id (seats narrowedData))" by code_simp
  have rc: "nat (rows narrowedData) = 2" "nat (cols narrowedData) = 1" by code_simp+
  have ids: "seatIdOf 0 0 = ''0-0''" "seatIdOf 1 0 = ''1-0''" "seatIdOf 0 1 = ''0-1''"
    by code_simp+
  have s0: "seats narrowedData ! 0 \<in> set (seats narrowedData)"
    "seat_id (seats narrowedData ! 0) = ''0-0''" "student (seats narrowedData ! 0) = Some 0"
    by code_simp+
  note T = initializeSeats_keeps_matching_seats [OF dist, unfolded rc]
  have len: "length (seats (initializeSeats narrowedData)) = 2" using T by simp
  have a0: "seat_id (seats (initializeSeats narrowedData) ! 0) = ''0-0'' \<and>
            student (seats (initializeSeats narrowedData) ! 0) = Some 0"
    using T [THEN conjunct2, THEN conjunct1, rule_format, of 0 0] s0 ids by simp
  have e10:
    "student (seats narrowedData ! 3) = None" "seats narrowedData ! 3 \<in> set (seats narrowedData)"
    "seat_id (seats narrowedData ! 3) = ''1-0''"
    by code_simp+
  have a1: "seat_id (seats (initializeSeats narrowedData) ! 1) = ''1-0'' \<and>
            student (seats (initializeSeats narrowedData) ! 1) = None"
    using T [THEN conjunct2, THEN conjunct1, rule_format, of 1 0] e10 ids by simp
  have out: "''0-1'' \<notin> seat_id ` set (seats (initializeSeats narrowedData))"
    using T [THEN conjunct2, THEN conjunct2, rule_format, of 0 1] ids by simp
  show ?thesis using ss len a0 a1 out by simp
qed

end
